theory Spec2Isabelle
  imports Complex_Main
begin

section \<open>Python values\<close>

text \<open>
  The values that \<^verbatim>\<open>resp.json()\<close> (Python's \<^verbatim>\<open>json.loads\<close>) can return:
  \<^verbatim>\<open>None\<close>, \<^verbatim>\<open>bool\<close>, \<^verbatim>\<open>int\<close> (unbounded), \<^verbatim>\<open>float\<close>, \<^verbatim>\<open>str\<close>, \<^verbatim>\<open>list\<close> and \<^verbatim>\<open>dict\<close> with
  string keys. A finite float is represented by its exact rational value (every double
  is one; rounding is not modelled), the decoder's \<^verbatim>\<open>Infinity\<close>, \<^verbatim>\<open>-Infinity\<close> and
  \<^verbatim>\<open>NaN\<close> by their own constructors. A dict is an association list in insertion order,
  read with \<open>map_of\<close>. A \<^verbatim>\<open>str\<close> is a \<open>string\<close>; characters outside ASCII stand as their
  UTF-8 bytes.
\<close>

datatype pyfloat = Finite rat | PosInf | NegInf | NaN

datatype json =
    JNull
  | JBool bool
  | JInt int
  | JFloat pyfloat
  | JStr string
  | JArr "json list"
  | JObj "(string \<times> json) list"

text \<open>
  The exceptions the module can end with. \<open>Exception\<close> is the built-in class raised
  by \<^verbatim>\<open>raise Exception(resp_json)\<close>, its argument the decoded body. \<open>JSONDecodeError\<close>
  is what \<^verbatim>\<open>resp.json()\<close> raises on a body that is not JSON, \<open>TransportError\<close> whatever
  \<^verbatim>\<open>httpx.post\<close> itself raises (no connection, timeout).
\<close>

datatype py_exc =
    Exception json
  | KeyError string
  | TypeError
  | ValueError
  | AttributeError
  | OverflowError
  | JSONDecodeError
  | TransportError

text \<open>Sequencing of statements that may raise: the first exception ends the function.\<close>

definition and_then :: "py_exc + 'a \<Rightarrow> ('a \<Rightarrow> py_exc + 'b) \<Rightarrow> py_exc + 'b" where
  "and_then m f = (case m of Inl e \<Rightarrow> Inl e | Inr v \<Rightarrow> f v)"

text \<open>
  \<^verbatim>\<open>x[k]\<close> with a string key \<open>k\<close>: a dict gives the value or raises \<^verbatim>\<open>KeyError(k)\<close>; a
  list or a str raises \<^verbatim>\<open>TypeError\<close> (indices must be integers); \<^verbatim>\<open>None\<close>, bool, int and
  float raise \<^verbatim>\<open>TypeError\<close> (not subscriptable).
\<close>

fun getitem :: "json \<Rightarrow> string \<Rightarrow> py_exc + json" where
  "getitem (JObj kvs) k = (case map_of kvs k of None \<Rightarrow> Inl (KeyError k) | Some v \<Rightarrow> Inr v)"
| "getitem JNull k = Inl TypeError"
| "getitem (JBool b) k = Inl TypeError"
| "getitem (JInt n) k = Inl TypeError"
| "getitem (JFloat f) k = Inl TypeError"
| "getitem (JStr s) k = Inl TypeError"
| "getitem (JArr xs) k = Inl TypeError"

text \<open>\<^verbatim>\<open>d[k] = v\<close> on a dict with string keys: an existing key keeps its place.\<close>

fun setitem :: "string \<Rightarrow> json \<Rightarrow> (string \<times> json) list \<Rightarrow> (string \<times> json) list" where
  "setitem k v [] = [(k, v)]"
| "setitem k v ((k', v') # kvs) =
     (if k' = k then (k', v) # kvs else (k', v') # setitem k v kvs)"

section \<open>The environment: HTTP transport, clock, login collaborator\<close>

text \<open>
  \<^verbatim>\<open>httpx.post(url, json=..., headers=...)\<close> sends one request and returns a response or
  raises. The response is seen through \<^verbatim>\<open>resp.status_code\<close> and \<^verbatim>\<open>resp.json()\<close> only;
  \<open>body_json\<close> is \<open>None\<close> when \<^verbatim>\<open>resp.json()\<close> raises: the body is not JSON that
  the interpreter decodes.
\<close>

record http_request =
  url :: string
  json_body :: json
  headers :: "(string \<times> string) list"

record http_response =
  status_code :: int
  body_json :: "json option"

text \<open>
  The world a call runs in. \<open>respond\<close> is what the network and the server answer to a
  request; \<open>sent\<close> logs the requests issued, oldest first. \<open>utc_clock\<close> is the reading
  of \<^verbatim>\<open>datetime.utcnow()\<close>: a naive datetime, as microseconds from 1970-01-01T00:00:00 on the
  UTC wall clock, so it is also the POSIX time of the reading. \<open>utc_offset\<close> is the offset
  of the host's local time zone from UTC, in seconds east, that the platform applies when a
  naive datetime is converted by \<^verbatim>\<open>timestamp()\<close>; \<open>time_t_min\<close> and \<open>time_t_max\<close>
  are the least and the greatest POSIX time, in seconds, that the platform's
  \<^verbatim>\<open>localtime\<close> converts (a 32-bit \<^verbatim>\<open>time_t\<close> ends at 2147483647; Windows converts no
  time before 0). The last two fields are the interpreter's: \<open>int_max_str_digits\<close> is \<^verbatim>\<open>sys.get_int_max_str_digits()\<close>, the greatest
  number of digits that \<^verbatim>\<open>int\<close> converts from a str (4300 unless changed; 0 when the limit
  is off, or on an interpreter that has none), and \<open>int_of_unicode\<close> is what \<^verbatim>\<open>int\<close>
  gives on a str with a character outside ASCII (\<open>None\<close> when it raises \<^verbatim>\<open>ValueError\<close>).
\<close>

record world =
  respond :: "http_request \<Rightarrow> py_exc + http_response"
  sent :: "http_request list"
  utc_clock :: int
  utc_offset :: int
  time_t_min :: int
  time_t_max :: int
  int_max_str_digits :: nat
  int_of_unicode :: "string \<Rightarrow> int option"

definition httpx_post :: "http_request \<Rightarrow> world \<Rightarrow> (py_exc + http_response) \<times> world" where
  "httpx_post req w = (respond w req, w\<lparr>sent := sent w @ [req]\<rparr>)"

definition response_json :: "http_response \<Rightarrow> py_exc + json" where
  "response_json resp = (case body_json resp of None \<Rightarrow> Inl JSONDecodeError | Some j \<Rightarrow> Inr j)"

subsection \<open>The built-in \<^verbatim>\<open>int()\<close>\<close>

text \<open>
  On a str of ASCII characters, \<^verbatim>\<open>int\<close> skips the whitespace around the number (tab,
  line feed, vertical tab, form feed, carriage return and space: the codes 9 to 13 and
  32, and no other), reads an optional sign and then decimal digits, where single
  underscores may stand between digits; leading zeros are allowed. Anything else raises
  \<^verbatim>\<open>ValueError\<close>, and so does a number with more digits (zeros in front counted, sign and
  underscores not) than the interpreter's limit, when it has one.

  On a str with a character outside ASCII, \<^verbatim>\<open>int\<close> goes by the interpreter's Unicode
  tables, which know the decimal digits and the spaces of other scripts. These tables are
  not modelled: what \<^verbatim>\<open>int\<close> gives on such a str is the world's \<open>int_of_unicode\<close>.

  On a float \<^verbatim>\<open>int\<close> truncates towards zero; the infinities raise \<^verbatim>\<open>OverflowError\<close>, NaN
  raises \<^verbatim>\<open>ValueError\<close>. \<^verbatim>\<open>None\<close>, lists and dicts raise \<^verbatim>\<open>TypeError\<close>.
\<close>

definition is_space :: "char \<Rightarrow> bool" where
  "is_space c = (let n = (of_char c :: nat) in (9 \<le> n \<and> n \<le> 13) \<or> n = 32)"

definition is_digit :: "char \<Rightarrow> bool" where
  "is_digit c = (let n = (of_char c :: nat) in 48 \<le> n \<and> n \<le> 57)"

definition is_ascii :: "string \<Rightarrow> bool" where
  "is_ascii s = list_all (\<lambda>c. (of_char c :: nat) < 128) s"

definition digit_val :: "char \<Rightarrow> int" where
  "digit_val c = int (of_char c) - 48"

definition strip :: "string \<Rightarrow> string" where
  "strip s = rev (dropWhile is_space (rev (dropWhile is_space s)))"

fun digits_from :: "int \<Rightarrow> string \<Rightarrow> int option" where
  "digits_from acc [] = Some acc"
| "digits_from acc [c] = (if is_digit c then Some (10 * acc + digit_val c) else None)"
| "digits_from acc (c # d # cs) =
     (if is_digit c then digits_from (10 * acc + digit_val c) (d # cs)
      else if c = CHR ''_'' \<and> is_digit d then digits_from (10 * acc + digit_val d) cs
      else None)"

definition unsigned_of_str :: "string \<Rightarrow> int option" where
  "unsigned_of_str s =
     (case s of [] \<Rightarrow> None
      | c # cs \<Rightarrow> if is_digit c then digits_from (digit_val c) cs else None)"

definition digit_count :: "string \<Rightarrow> nat" where
  "digit_count s = length (filter is_digit s)"

text \<open>
  \<open>int_of_str limit s\<close> for an ASCII str; \<open>limit\<close> is the greatest number of digits
  the interpreter converts, 0 when it has no limit.
\<close>

definition int_of_str :: "nat \<Rightarrow> string \<Rightarrow> int option" where
  "int_of_str limit s =
     (case strip s of
        [] \<Rightarrow> None
      | c # cs \<Rightarrow>
          (let digits = (if c = CHR ''-'' \<or> c = CHR ''+'' then cs else c # cs)
           in if 0 < limit \<and> limit < digit_count digits then None
              else if c = CHR ''-'' then map_option uminus (unsigned_of_str digits)
              else unsigned_of_str digits))"

definition str_to_int :: "world \<Rightarrow> string \<Rightarrow> int option" where
  "str_to_int w s =
     (if is_ascii s then int_of_str (int_max_str_digits w) s else int_of_unicode w s)"

definition trunc_rat :: "rat \<Rightarrow> int" where
  "trunc_rat q = (if 0 \<le> q then \<lfloor>q\<rfloor> else \<lceil>q\<rceil>)"

fun py_int :: "world \<Rightarrow> json \<Rightarrow> py_exc + int" where
  "py_int w (JInt n) = Inr n"
| "py_int w (JBool b) = Inr (if b then 1 else 0)"
| "py_int w (JStr s) = (case str_to_int w s of None \<Rightarrow> Inl ValueError | Some n \<Rightarrow> Inr n)"
| "py_int w (JFloat (Finite q)) = Inr (trunc_rat q)"
| "py_int w (JFloat PosInf) = Inl OverflowError"
| "py_int w (JFloat NegInf) = Inl OverflowError"
| "py_int w (JFloat NaN) = Inl ValueError"
| "py_int w JNull = Inl TypeError"
| "py_int w (JArr xs) = Inl TypeError"
| "py_int w (JObj kvs) = Inl TypeError"

subsection \<open>\<^verbatim>\<open>datetime\<close> and \<^verbatim>\<open>timedelta\<close>\<close>

text \<open>
  \<^verbatim>\<open>timedelta(seconds=s)\<close> normalises to days and seconds and raises \<^verbatim>\<open>OverflowError\<close>
  when the days exceed 999999999 in magnitude. The value is kept in microseconds.
\<close>

definition timedelta_seconds :: "int \<Rightarrow> py_exc + int" where
  "timedelta_seconds s =
     (if 999999999 < \<bar>s div 86400\<bar> then Inl OverflowError else Inr (s * 1000000))"

text \<open>
  \<^verbatim>\<open>datetime.min\<close> is 0001-01-01T00:00:00 and \<^verbatim>\<open>datetime.max\<close> is
  9999-12-31T23:59:59.999999; a sum outside raises \<^verbatim>\<open>OverflowError\<close>.
\<close>

definition datetime_min :: int where
  "datetime_min = - 62135596800000000"

definition datetime_max :: int where
  "datetime_max = 253402300799999999"

definition datetime_add :: "int \<Rightarrow> int \<Rightarrow> py_exc + int" where
  "datetime_add t d =
     (if datetime_min \<le> t + d \<and> t + d \<le> datetime_max then Inr (t + d) else Inl OverflowError)"

text \<open>
  \<^verbatim>\<open>timestamp()\<close> of a naive datetime takes it as local time: the POSIX time is the wall
  clock value less the zone's offset. The result is kept in microseconds; Python returns
  the float nearest to that many seconds. (The conversion asks the platform's
  \<^verbatim>\<open>localtime\<close> for times up to a day from the result, and it raises when one of them is
  outside the platform's range or gives a local time outside the years 1 to 9999. Where
  exactly it raises is not modelled: the properties below that need a timestamp keep
  two days clear of these ends, see \<open>expiry_representable\<close>.)
\<close>

definition naive_timestamp :: "world \<Rightarrow> int \<Rightarrow> int" where
  "naive_timestamp w t = t - utc_offset w * 1000000"

section \<open>Building the registration body\<close>

text \<open>\<^verbatim>\<open>_build_registration_body(domain, serial)\<close>: the body without \<^verbatim>\<open>auth_data\<close>.\<close>

definition build_registration_body :: "string \<Rightarrow> string \<Rightarrow> (string \<times> json) list" where
  "build_registration_body domain serial =
     [(''requested_token_type'',
         JArr [JStr ''bearer'', JStr ''mac_dms'', JStr ''website_cookies'',
               JStr ''store_authentication_cookie'']),
      (''cookies'',
         JObj [(''website_cookies'', JArr []),
               (''domain'', JStr (''.amazon.'' @ domain))]),
      (''registration_data'',
         JObj [(''domain'', JStr ''Device''),
               (''app_version'', JStr ''3.26.1''),
               (''device_serial'', JStr serial),
               (''device_type'', JStr ''A2CZJZGLK2JJVM''),
               (''device_name'',
                  JStr (''%FIRST_NAME%%FIRST_NAME_POSSESSIVE_STRING%%DUPE_'' @
                        ''STRATEGY_1ST%Audible for iPhone'')),
               (''os_version'', JStr ''13.5.1''),
               (''device_model'', JStr ''iPhone''),
               (''app_name'', JStr ''Audible'')]),
      (''requested_extensions'', JArr [JStr ''device_info'', JStr ''customer_info''])]"

section \<open>Normalising the registration response\<close>

text \<open>
  The dict \<^verbatim>\<open>_register\<close> returns has nine fixed keys. The values read from the response
  are whatever JSON the server put there; \<open>expires\<close> is the timestamp in microseconds;
  \<open>website_cookies\<close> is the dict built by the loop, in insertion order.
\<close>

record credentials =
  adp_token :: json
  device_private_key :: json
  access_token :: json
  refresh_token :: json
  expires :: int
  website_cookies :: "(json \<times> string) list"
  store_authentication_cookie :: json
  device_info :: json
  customer_info :: json

text \<open>
  A Python dict finds a key by identity or, failing that, with \<^verbatim>\<open>==\<close>: \<^verbatim>\<open>True\<close>, \<^verbatim>\<open>1\<close>
  and \<^verbatim>\<open>1.0\<close> are one key. The JSON decoder returns one and the same object for every
  \<^verbatim>\<open>NaN\<close> it reads, so NaN is one key too, although it is not equal to itself. Lists and
  dicts are unhashable.
\<close>

fun key_num :: "json \<Rightarrow> pyfloat option" where
  "key_num (JBool b) = Some (Finite (if b then 1 else 0))"
| "key_num (JInt n) = Some (Finite (of_int n))"
| "key_num (JFloat f) = Some f"
| "key_num JNull = None"
| "key_num (JStr s) = None"
| "key_num (JArr xs) = None"
| "key_num (JObj kvs) = None"

definition py_eq :: "json \<Rightarrow> json \<Rightarrow> bool" where
  "py_eq a b =
     (case (key_num a, key_num b) of
        (Some x, Some y) \<Rightarrow> x = y
      | (None, None) \<Rightarrow> a = b
      | _ \<Rightarrow> False)"

fun hashable :: "json \<Rightarrow> bool" where
  "hashable (JArr xs) = False"
| "hashable (JObj kvs) = False"
| "hashable _ = True"

fun dict_update :: "json \<Rightarrow> 'v \<Rightarrow> (json \<times> 'v) list \<Rightarrow> (json \<times> 'v) list" where
  "dict_update k v [] = [(k, v)]"
| "dict_update k v ((k', v') # kvs) =
     (if py_eq k' k then (k', v) # kvs else (k', v') # dict_update k v kvs)"

definition dict_setitem :: "json \<Rightarrow> 'v \<Rightarrow> (json \<times> 'v) list \<Rightarrow> py_exc + (json \<times> 'v) list" where
  "dict_setitem k v d = (if hashable k then Inr (dict_update k v d) else Inl TypeError)"

fun dict_get :: "(json \<times> 'v) list \<Rightarrow> json \<Rightarrow> 'v option" where
  "dict_get [] k = None"
| "dict_get ((k', v) # kvs) k = (if py_eq k' k then Some v else dict_get kvs k)"

text \<open>
  \<^verbatim>\<open>v.replace('"', '')\<close>: on a str, every double quote is removed; no other JSON value has
  a \<^verbatim>\<open>replace\<close> attribute.
\<close>

fun replace_quote :: "json \<Rightarrow> py_exc + string" where
  "replace_quote (JStr s) = Inr (filter (\<lambda>c. c \<noteq> CHR 0x22) s)"
| "replace_quote JNull = Inl AttributeError"
| "replace_quote (JBool b) = Inl AttributeError"
| "replace_quote (JInt n) = Inl AttributeError"
| "replace_quote (JFloat f) = Inl AttributeError"
| "replace_quote (JArr xs) = Inl AttributeError"
| "replace_quote (JObj kvs) = Inl AttributeError"

text \<open>
  \<^verbatim>\<open>for cookie in x\<close>: a list gives its elements, a dict its keys, a str its characters;
  anything else is not iterable.
\<close>

fun py_iter :: "json \<Rightarrow> py_exc + json list" where
  "py_iter (JArr xs) = Inr xs"
| "py_iter (JObj kvs) = Inr (map (\<lambda>kv. JStr (fst kv)) kvs)"
| "py_iter (JStr s) = Inr (map (\<lambda>c. JStr [c]) s)"
| "py_iter JNull = Inl TypeError"
| "py_iter (JBool b) = Inl TypeError"
| "py_iter (JInt n) = Inl TypeError"
| "py_iter (JFloat f) = Inl TypeError"

text \<open>
  One round of the loop, \<^verbatim>\<open>website_cookies[cookie["Name"]] = cookie["Value"].replace(r'"', r'')\<close>.
  Python evaluates the right-hand side first, then the subscript of the target, then
  stores.
\<close>

definition store_cookie :: "(json \<times> string) list \<Rightarrow> json \<Rightarrow> py_exc + (json \<times> string) list" where
  "store_cookie cookies cookie =
     and_then (getitem cookie ''Value'') (\<lambda>v.
     and_then (replace_quote v) (\<lambda>v'.
     and_then (getitem cookie ''Name'') (\<lambda>n.
     dict_setitem n v' cookies)))"

fun cookie_loop :: "(json \<times> string) list \<Rightarrow> json list \<Rightarrow> py_exc + (json \<times> string) list" where
  "cookie_loop cookies [] = Inr cookies"
| "cookie_loop cookies (cookie # rest) =
     (case store_cookie cookies cookie of
        Inl e \<Rightarrow> Inl e
      | Inr cookies' \<Rightarrow> cookie_loop cookies' rest)"

text \<open>Lines 55 to 57 of \<^verbatim>\<open>_register\<close>: the loop over \<^verbatim>\<open>tokens["website_cookies"]\<close>.\<close>

definition flatten_cookies :: "json \<Rightarrow> py_exc + (json \<times> string) list" where
  "flatten_cookies cs = and_then (py_iter cs) (cookie_loop [])"

text \<open>
  Line 49: \<^verbatim>\<open>(datetime.utcnow() + timedelta(seconds=expires_s)).timestamp()\<close>.
\<close>

definition compute_expires :: "world \<Rightarrow> int \<Rightarrow> py_exc + int" where
  "compute_expires w expires_s =
     and_then (timedelta_seconds expires_s) (\<lambda>d.
     and_then (datetime_add (utc_clock w) d) (\<lambda>t.
     Inr (naive_timestamp w t)))"

text \<open>Lines 40 to 69 of \<^verbatim>\<open>_register\<close>, in the order the statements run.\<close>

definition normalize_response :: "world \<Rightarrow> json \<Rightarrow> py_exc + credentials" where
  "normalize_response w resp_json =
     and_then (getitem resp_json ''response'') (\<lambda>r.
     and_then (getitem r ''success'') (\<lambda>success_response.
     and_then (getitem success_response ''tokens'') (\<lambda>tokens.
     and_then (getitem tokens ''mac_dms'') (\<lambda>m1.
     and_then (getitem m1 ''adp_token'') (\<lambda>adp.
     and_then (getitem tokens ''mac_dms'') (\<lambda>m2.
     and_then (getitem m2 ''device_private_key'') (\<lambda>dpk.
     and_then (getitem tokens ''store_authentication_cookie'') (\<lambda>sac.
     and_then (getitem tokens ''bearer'') (\<lambda>b1.
     and_then (getitem b1 ''access_token'') (\<lambda>atok.
     and_then (getitem tokens ''bearer'') (\<lambda>b2.
     and_then (getitem b2 ''refresh_token'') (\<lambda>rtok.
     and_then (getitem tokens ''bearer'') (\<lambda>b3.
     and_then (getitem b3 ''expires_in'') (\<lambda>ei.
     and_then (py_int w ei) (\<lambda>expires_s.
     and_then (compute_expires w expires_s) (\<lambda>ex.
     and_then (getitem success_response ''extensions'') (\<lambda>extensions.
     and_then (getitem extensions ''device_info'') (\<lambda>di.
     and_then (getitem extensions ''customer_info'') (\<lambda>ci.
     and_then (getitem tokens ''website_cookies'') (\<lambda>wc.
     and_then (flatten_cookies wc) (\<lambda>cookies.
     Inr \<lparr>adp_token = adp, device_private_key = dpk, access_token = atok,
          refresh_token = rtok, expires = ex, website_cookies = cookies,
          store_authentication_cookie = sac, device_info = di,
          customer_info = ci\<rparr>)))))))))))))))))))))"

section \<open>The entry points\<close>

definition register_url :: "string \<Rightarrow> string" where
  "register_url domain = ''https://api.amazon.'' @ domain @ ''/auth/register''"

definition deregister_url :: "string \<Rightarrow> string" where
  "deregister_url domain = ''https://api.amazon.'' @ domain @ ''/auth/deregister''"

text \<open>\<^verbatim>\<open>_register(body, domain)\<close>. No headers are passed to \<^verbatim>\<open>httpx.post\<close>.\<close>

definition priv_register ::
    "(string \<times> json) list \<Rightarrow> string \<Rightarrow> world \<Rightarrow> (py_exc + credentials) \<times> world" where
  "priv_register body domain w =
     (case httpx_post \<lparr>url = register_url domain, json_body = JObj body, headers = []\<rparr> w of
        (r, w') \<Rightarrow>
          (and_then r (\<lambda>resp.
           and_then (response_json resp) (\<lambda>resp_json.
           if status_code resp \<noteq> 200 then Inl (Exception resp_json)
           else normalize_response w' resp_json)), w'))"

text \<open>
  \<^verbatim>\<open>register(access_token, domain, serial)\<close>; the parameter is named \<open>token\<close> here, since
  \<open>access_token\<close> is a field of the result.
\<close>

definition register_body :: "string \<Rightarrow> string \<Rightarrow> string \<Rightarrow> (string \<times> json) list" where
  "register_body token domain serial =
     setitem ''auth_data'' (JObj [(''access_token'', JStr token)])
       (build_registration_body domain serial)"

definition register ::
    "string \<Rightarrow> string \<Rightarrow> string \<Rightarrow> world \<Rightarrow> (py_exc + credentials) \<times> world" where
  "register token domain serial w = priv_register (register_body token domain serial) domain w"

text \<open>
  \<^verbatim>\<open>register_auth_code(authorization_code, code_verifier, domain, serial)\<close>. The function
  \<^verbatim>\<open>build_client_id\<close> is imported from the package's login module, which is not part of the
  sources at hand: it is the parameter \<open>build_client_id\<close>.
\<close>

definition register_auth_code_body ::
    "(string \<Rightarrow> string) \<Rightarrow> string \<Rightarrow> string \<Rightarrow> string \<Rightarrow> string \<Rightarrow> (string \<times> json) list" where
  "register_auth_code_body build_client_id authorization_code code_verifier domain serial =
     setitem ''auth_data''
       (JObj [(''client_id'', JStr (build_client_id serial)),
              (''authorization_code'', JStr authorization_code),
              (''code_verifier'', JStr code_verifier),
              (''code_algorithm'', JStr ''SHA-256''),
              (''client_domain'', JStr ''DeviceLegacy'')])
       (build_registration_body domain serial)"

definition register_auth_code ::
    "(string \<Rightarrow> string) \<Rightarrow> string \<Rightarrow> string \<Rightarrow> string \<Rightarrow> string \<Rightarrow> world
      \<Rightarrow> (py_exc + credentials) \<times> world" where
  "register_auth_code build_client_id authorization_code code_verifier domain serial w =
     priv_register
       (register_auth_code_body build_client_id authorization_code code_verifier domain serial)
       domain w"

text \<open>
  \<^verbatim>\<open>deregister(access_token, domain, deregister_all=False)\<close>. The optional argument is an
  \<open>option\<close>: \<open>None\<close> when the caller omits it, and then the default \<^verbatim>\<open>False\<close> is used.
\<close>

definition deregister ::
    "string \<Rightarrow> string \<Rightarrow> bool option \<Rightarrow> world \<Rightarrow> (py_exc + json) \<times> world" where
  "deregister token domain deregister_all_arg w =
     (let deregister_all = (case deregister_all_arg of None \<Rightarrow> False | Some b \<Rightarrow> b);
          body = JObj [(''deregister_all_existing_accounts'', JBool deregister_all)];
          hdrs = [(''Authorization'', ''Bearer '' @ token)]
      in case httpx_post \<lparr>url = deregister_url domain, json_body = body, headers = hdrs\<rparr> w of
           (r, w') \<Rightarrow>
             (and_then r (\<lambda>resp.
              and_then (response_json resp) (\<lambda>resp_json.
              if \<not> status_code resp = 200 then Inl (Exception resp_json)
              else Inr resp_json)), w'))"

section \<open>Reading requests and responses\<close>

text \<open>
  The definitions of this section are not part of the module: they are the vocabulary in
  which its properties are stated. \<open>json_path j p\<close> follows the keys \<open>p\<close> into \<open>j\<close>
  with the module's own subscript.
\<close>

fun json_path :: "json \<Rightarrow> string list \<Rightarrow> py_exc + json" where
  "json_path j [] = Inr j"
| "json_path j (k # ks) = (case getitem j k of Inl e \<Rightarrow> Inl e | Inr v \<Rightarrow> json_path v ks)"

definition has_path :: "json \<Rightarrow> string list \<Rightarrow> bool" where
  "has_path j p = (case json_path j p of Inl e \<Rightarrow> False | Inr v \<Rightarrow> True)"

definition obj_fields :: "json \<Rightarrow> (string \<times> json) list" where
  "obj_fields j = (case j of JObj kvs \<Rightarrow> kvs | _ \<Rightarrow> [])"

text \<open>The fields of a registration response that \<^verbatim>\<open>_register\<close> reads.\<close>

definition expires_in_path :: "string list" where
  "expires_in_path = [''response'', ''success'', ''tokens'', ''bearer'', ''expires_in'']"

definition cookies_path :: "string list" where
  "cookies_path = [''response'', ''success'', ''tokens'', ''website_cookies'']"

definition required_paths :: "string list list" where
  "required_paths =
     [[''response'', ''success'', ''tokens'', ''mac_dms'', ''adp_token''],
      [''response'', ''success'', ''tokens'', ''mac_dms'', ''device_private_key''],
      [''response'', ''success'', ''tokens'', ''store_authentication_cookie''],
      [''response'', ''success'', ''tokens'', ''bearer'', ''access_token''],
      [''response'', ''success'', ''tokens'', ''bearer'', ''refresh_token''],
      [''response'', ''success'', ''tokens'', ''bearer'', ''expires_in''],
      [''response'', ''success'', ''tokens'', ''website_cookies''],
      [''response'', ''success'', ''extensions'', ''device_info''],
      [''response'', ''success'', ''extensions'', ''customer_info'']]"

text \<open>
  The exceptions that decoding a response ends with: a missing key, a subscript or an
  iteration on a value of the wrong type, an \<^verbatim>\<open>expires_in\<close> that is no integer or no
  representable duration, a value without \<^verbatim>\<open>replace\<close>, a body that is not JSON. The other
  two are the server's own error, raised as \<^verbatim>\<open>Exception(resp_json)\<close>, and a failure of
  the transport.
\<close>

fun decoding_error :: "py_exc \<Rightarrow> bool" where
  "decoding_error (KeyError k) = True"
| "decoding_error TypeError = True"
| "decoding_error ValueError = True"
| "decoding_error OverflowError = True"
| "decoding_error AttributeError = True"
| "decoding_error JSONDecodeError = True"
| "decoding_error (Exception j) = False"
| "decoding_error TransportError = False"

text \<open>
  A cookie of the response as a pair: an object whose \<^verbatim>\<open>Name\<close> and \<^verbatim>\<open>Value\<close> are
  strings (it may have other fields). \<open>unquote\<close> is a value without its double quotes.
\<close>

definition name_value :: "json \<Rightarrow> (string \<times> string) option" where
  "name_value c =
     (case getitem c ''Name'' of
        Inr (JStr n) \<Rightarrow> (case getitem c ''Value'' of Inr (JStr v) \<Rightarrow> Some (n, v) | _ \<Rightarrow> None)
      | _ \<Rightarrow> None)"

definition unquote :: "string \<Rightarrow> string" where
  "unquote v = filter (\<lambda>c. c \<noteq> CHR 0x22) v"

text \<open>
  Storing name and value pairs one after the other, each value without its quotes: what
  the loop does on a sequence of such cookies.
\<close>

definition store_pairs ::
    "(json \<times> string) list \<Rightarrow> (string \<times> string) list \<Rightarrow> (json \<times> string) list" where
  "store_pairs d nvs = foldl (\<lambda>d nv. dict_update (JStr (fst nv)) (unquote (snd nv)) d) d nvs"

text \<open>
  A duration of \<open>n\<close> seconds that \<^verbatim>\<open>timedelta\<close> can hold and that, added to the clock's
  reading, gives a \<^verbatim>\<open>datetime\<close> at least two days (172800 seconds) inside the range of
  \<^verbatim>\<open>datetime\<close> and inside the range of the platform's \<^verbatim>\<open>localtime\<close>, on a host whose
  zone is at most a day from UTC: there the conversion to a timestamp does not raise.
\<close>

definition expiry_representable :: "world \<Rightarrow> int \<Rightarrow> bool" where
  "expiry_representable w n \<longleftrightarrow>
     \<bar>n div 86400\<bar> \<le> 999999999 \<and> \<bar>utc_offset w\<bar> \<le> 86400
       \<and> datetime_min + 172800000000 \<le> utc_clock w + n * 1000000
       \<and> utc_clock w + n * 1000000 \<le> datetime_max - 172800000000
       \<and> (time_t_min w + 172800) * 1000000 \<le> utc_clock w + n * 1000000
       \<and> utc_clock w + n * 1000000 \<le> (time_t_max w - 172800) * 1000000"

text \<open>
  A well-formed success body: every field is there, \<^verbatim>\<open>expires_in\<close> is an integer count of
  seconds with a representable expiry, and \<^verbatim>\<open>website_cookies\<close> is a sequence of
  name and value pairs.
\<close>

definition well_formed_success :: "world \<Rightarrow> json \<Rightarrow> bool" where
  "well_formed_success w j \<longleftrightarrow>
     list_all (has_path j) required_paths
     \<and> (case and_then (json_path j expires_in_path) (py_int w) of
          Inl e \<Rightarrow> False | Inr n \<Rightarrow> expiry_representable w n)
     \<and> (case json_path j cookies_path of
          Inr (JArr cs) \<Rightarrow> list_all (\<lambda>c. name_value c \<noteq> None) cs
        | _ \<Rightarrow> False)"

text \<open>
  The deregistration request as the interface description has it: the flag in the body,
  the bearer token in the \<^verbatim>\<open>Authorization\<close> header.
\<close>

definition deregister_request :: "string \<Rightarrow> string \<Rightarrow> bool \<Rightarrow> http_request" where
  "deregister_request token domain flag =
     \<lparr>url = ''https://api.amazon.'' @ domain @ ''/auth/deregister'',
      json_body = JObj [(''deregister_all_existing_accounts'', JBool flag)],
      headers = [(''Authorization'', ''Bearer '' @ token)]\<rparr>"

subsection \<open>Example hosts and bodies\<close>

text \<open>
  A server that answers every request with one response, and a host with such a server,
  a clock reading, a time zone, a 32-bit \<^verbatim>\<open>time_t\<close> and the default limit of digits. Every string of the
  examples is ASCII, so the host's \<open>int_of_unicode\<close> is never asked; it is set to a
  function that converts nothing.
\<close>

definition no_unicode :: "string \<Rightarrow> int option" where
  "no_unicode s = None"

definition answer_all :: "http_response \<Rightarrow> http_request \<Rightarrow> py_exc + http_response" where
  "answer_all resp req = Inr resp"

definition example_host :: "int \<Rightarrow> json \<Rightarrow> int \<Rightarrow> int \<Rightarrow> world" where
  "example_host status j clock offset =
     \<lparr>respond = answer_all \<lparr>status_code = status, body_json = Some j\<rparr>,
      sent = [], utc_clock = clock, utc_offset = offset,
      time_t_min = - 2147483648, time_t_max = 2147483647,
      int_max_str_digits = 4300, int_of_unicode = no_unicode\<rparr>"

definition example_cookie :: "string \<Rightarrow> string \<Rightarrow> json" where
  "example_cookie n v = JObj [(''Name'', JStr n), (''Value'', JStr v)]"

definition example_success :: "json \<Rightarrow> json \<Rightarrow> json" where
  "example_success expires_in cookies =
     JObj [(''response'', JObj [(''success'', JObj
       [(''tokens'', JObj
          [(''mac_dms'', JObj [(''adp_token'', JStr ''ADP''),
                               (''device_private_key'', JStr ''KEY'')]),
           (''store_authentication_cookie'', JObj [(''cookie'', JStr ''SAC'')]),
           (''bearer'', JObj [(''access_token'', JStr ''AT''),
                              (''refresh_token'', JStr ''RT''),
                              (''expires_in'', expires_in)]),
           (''website_cookies'', cookies)]),
        (''extensions'', JObj [(''device_info'', JObj [(''device_name'', JStr ''phone'')]),
                               (''customer_info'', JObj [(''name'', JStr ''N'')])])])])]"

definition example_error :: json where
  "example_error = JObj [(''response'', JObj [(''error'', JStr ''x'')])]"

definition example_client_id :: "string \<Rightarrow> string" where
  "example_client_id serial = ''client-'' @ serial"

section \<open>Properties\<close>

subsection \<open>Auxiliary facts\<close>

lemma and_then_Inr: "and_then m f = Inr b \<longleftrightarrow> (\<exists>v. m = Inr v \<and> f v = Inr b)"
  by (cases m) (simp_all add: and_then_def)

lemma and_then_Inl: "and_then m f = Inl e \<longleftrightarrow> m = Inl e \<or> (\<exists>v. m = Inr v \<and> f v = Inl e)"
  by (cases m) (simp_all add: and_then_def)

lemma snd_priv_register:
  "snd (priv_register body domain w) =
     w\<lparr>sent := sent w @ [\<lparr>url = register_url domain, json_body = JObj body, headers = []\<rparr>]\<rparr>"
  by (simp add: priv_register_def httpx_post_def)

lemma snd_deregister:
  "snd (deregister token domain arg w) =
     w\<lparr>sent := sent w @
        [deregister_request token domain (case arg of None \<Rightarrow> False | Some b \<Rightarrow> b)]\<rparr>"
  by (simp add: deregister_def Let_def httpx_post_def deregister_url_def deregister_request_def)

lemma compute_expires_sent: "compute_expires (w\<lparr>sent := rs\<rparr>) n = compute_expires w n"
  by (simp add: compute_expires_def naive_timestamp_def)

lemma py_int_sent: "py_int (w\<lparr>sent := rs\<rparr>) j = py_int w j"
proof (cases j)
  case (JFloat f)
  then show ?thesis by (cases f) simp_all
next
  case (JStr s)
  then show ?thesis by (simp add: str_to_int_def)
qed simp_all

lemma normalize_response_sent: "normalize_response (w\<lparr>sent := rs\<rparr>) j = normalize_response w j"
  by (simp add: normalize_response_def compute_expires_sent py_int_sent)

lemma fst_priv_register:
  assumes "respond w \<lparr>url = register_url domain, json_body = JObj body, headers = []\<rparr>
             = Inr \<lparr>status_code = status, body_json = Some j\<rparr>"
  shows "fst (priv_register body domain w) =
           (if status \<noteq> 200 then Inl (Exception j) else normalize_response w j)"
  using assms
  by (simp add: priv_register_def httpx_post_def and_then_def response_json_def
      normalize_response_sent)

lemma fst_deregister:
  assumes "respond w (deregister_request token domain (case arg of None \<Rightarrow> False | Some b \<Rightarrow> b))
             = Inr \<lparr>status_code = status, body_json = Some j\<rparr>"
  shows "fst (deregister token domain arg w) = (if status \<noteq> 200 then Inl (Exception j) else Inr j)"
  using assms
  by (simp add: deregister_def Let_def httpx_post_def deregister_url_def deregister_request_def
      and_then_def response_json_def)

lemma fst_priv_register_respond:
  "fst (priv_register body domain w) =
     and_then (respond w \<lparr>url = register_url domain, json_body = JObj body, headers = []\<rparr>)
       (\<lambda>resp. and_then (response_json resp)
          (\<lambda>resp_json. if status_code resp \<noteq> 200 then Inl (Exception resp_json)
                        else normalize_response w resp_json))"
  by (simp add: priv_register_def httpx_post_def normalize_response_sent cong: if_cong)

lemma last_sent_priv_register:
  "last (sent (snd (priv_register body domain w))) =
     \<lparr>url = register_url domain, json_body = JObj body, headers = []\<rparr>"
  by (simp add: snd_priv_register)

lemma last_sent_deregister:
  "last (sent (snd (deregister token domain arg w))) =
     deregister_request token domain (case arg of None \<Rightarrow> False | Some b \<Rightarrow> b)"
  by (simp add: snd_deregister)

lemma getitem_error: "getitem j k = Inl e \<Longrightarrow> decoding_error e"
  by (cases j) (auto split: option.splits)

lemma py_int_error: "py_int w j = Inl e \<Longrightarrow> decoding_error e"
  by (erule py_int.elims) (auto split: option.splits)

lemma int_rejects_separators:
  "py_int (example_host 200 JNull 0 0) (JStr (CHR 0x1C # ''3600'')) = Inl ValueError"
  by (simp add: str_to_int_def is_ascii_def int_of_str_def strip_def is_space_def
      digit_count_def unsigned_of_str_def is_digit_def digit_val_def example_host_def)

lemma strip_zeros: "strip (replicate n (CHR ''0'')) = replicate n (CHR ''0'')"
  by (cases n) (simp_all add: strip_def is_space_def replicate_append_same)

lemma int_of_str_over_limit:
  assumes "0 < limit" and "limit < n"
  shows "int_of_str limit (replicate n (CHR ''0'')) = None"
proof -
  from assms obtain m where n: "n = Suc m" by (cases n) auto
  have "digit_count (replicate n (CHR ''0'')) = n"
    by (simp add: digit_count_def is_digit_def)
  with assms show ?thesis
    unfolding int_of_str_def strip_zeros
    by (simp add: n)
qed

lemma compute_expires_error: "compute_expires w n = Inl e \<Longrightarrow> decoding_error e"
  by (auto simp: compute_expires_def and_then_def timedelta_seconds_def datetime_add_def
      split: if_splits sum.splits)

lemma compute_expires_value:
  "expiry_representable w n \<Longrightarrow>
   compute_expires w n = Inr (utc_clock w + n * 1000000 - utc_offset w * 1000000)"
  by (simp add: expiry_representable_def compute_expires_def and_then_def timedelta_seconds_def
      datetime_add_def naive_timestamp_def datetime_min_def datetime_max_def)

lemma normalize_Inr_paths:
  assumes "normalize_response w j = Inr b"
  shows "\<forall>p \<in> set required_paths. has_path j p"
  using assms unfolding normalize_response_def and_then_Inr
  by (auto simp: required_paths_def has_path_def)

lemma normalize_Inl_cases:
  assumes "normalize_response w j = Inl e"
  shows "decoding_error e \<or> (\<forall>p \<in> set required_paths. has_path j p)"
  using assms unfolding normalize_response_def and_then_Inl
  by (auto simp: required_paths_def has_path_def
      dest: getitem_error py_int_error compute_expires_error)

lemma normalize_missing_path:
  assumes "p \<in> set required_paths" and "\<not> has_path j p"
  shows "\<exists>e. normalize_response w j = Inl e \<and> decoding_error e"
proof (cases "normalize_response w j")
  case (Inl e)
  with normalize_Inl_cases [OF Inl] assms show ?thesis by auto
next
  case (Inr b)
  with normalize_Inr_paths [OF Inr] assms show ?thesis by auto
qed

lemma normalize_Inr_cookies:
  assumes "normalize_response w j = Inr b"
  shows "\<exists>wc. json_path j cookies_path = Inr wc \<and> flatten_cookies wc = Inr (website_cookies b)"
  using assms unfolding normalize_response_def and_then_Inr
  by (auto simp: cookies_path_def)

lemma py_eq_JStr [simp]: "py_eq a (JStr n) \<longleftrightarrow> a = JStr n"
  by (cases a) (auto simp: py_eq_def)

lemma store_cookie_pair:
  "name_value c = Some (n, v) \<Longrightarrow> store_cookie d c = Inr (dict_update (JStr n) (unquote v) d)"
  by (auto simp: name_value_def store_cookie_def and_then_def dict_setitem_def unquote_def
      split: sum.splits json.splits)

lemma cookie_loop_pairs:
  "map name_value cs = map Some nvs \<Longrightarrow> cookie_loop d cs = Inr (store_pairs d nvs)"
proof (induction cs arbitrary: d nvs)
  case Nil
  then show ?case by (simp add: store_pairs_def)
next
  case (Cons c cs)
  then obtain nv nvs' where nvs: "nvs = nv # nvs'" and c: "name_value c = Some nv"
    and rest: "map name_value cs = map Some nvs'"
    by (cases nvs) auto
  from c have "store_cookie d c = Inr (dict_update (JStr (fst nv)) (unquote (snd nv)) d)"
    by (cases nv) (simp add: store_cookie_pair)
  with Cons.IH [OF rest] nvs show ?case by (simp add: store_pairs_def)
qed

lemma dict_get_update_str:
  "dict_get (dict_update (JStr n) v d) (JStr k) = (if k = n then Some v else dict_get d (JStr k))"
  by (induction d) auto

lemma map_fst_update_str:
  "map fst (dict_update (JStr n) v d) =
     (if JStr n \<in> set (map fst d) then map fst d else map fst d @ [JStr n])"
  by (induction d) (force simp: image_iff)+

lemma keys_update_str:
  "fst ` set (dict_update (JStr n) v d) = insert (JStr n) (fst ` set d)"
proof -
  have "set (map fst (dict_update (JStr n) v d)) = insert (JStr n) (set (map fst d))"
    unfolding map_fst_update_str by auto
  then show ?thesis by simp
qed

lemma distinct_update_str:
  "distinct (map fst d) \<Longrightarrow> distinct (map fst (dict_update (JStr n) v d))"
  unfolding map_fst_update_str by simp

lemma dict_get_store_pairs:
  "dict_get (store_pairs d nvs) (JStr k) =
     (case map_of (rev (map (\<lambda>nv. (fst nv, unquote (snd nv))) nvs)) k of
        None \<Rightarrow> dict_get d (JStr k) | Some v \<Rightarrow> Some v)"
  unfolding store_pairs_def
  by (induction nvs arbitrary: d) (auto simp: dict_get_update_str split: option.splits)

lemma keys_store_pairs:
  "fst ` set (store_pairs d nvs) = fst ` set d \<union> (\<lambda>nv. JStr (fst nv)) ` set nvs"
  unfolding store_pairs_def
  by (induction nvs arbitrary: d) (auto simp: keys_update_str)

lemma distinct_store_pairs:
  "distinct (map fst d) \<Longrightarrow> distinct (map fst (store_pairs d nvs))"
  unfolding store_pairs_def
  by (induction nvs arbitrary: d) (auto simp: distinct_update_str)

lemma list_all_name_value:
  "list_all (\<lambda>c. name_value c \<noteq> None) cs \<Longrightarrow> \<exists>nvs. map name_value cs = map Some nvs"
proof (induction cs)
  case Nil
  then show ?case by simp
next
  case (Cons c cs)
  then obtain nvs nv where "map name_value cs = map Some nvs" and "name_value c = Some nv"
    by auto
  then have "map name_value (c # cs) = map Some (nv # nvs)" by simp
  then show ?case by blast
qed

lemma names_of_pairs:
  assumes "map name_value cs = map Some nvs"
  shows "{k. \<exists>c\<in>set cs. getitem c ''Name'' = Inr k} = (\<lambda>nv. JStr (fst nv)) ` set nvs"
  using assms
proof (induction cs arbitrary: nvs)
  case Nil
  then show ?case by simp
next
  case (Cons c cs)
  then obtain nv nvs' where nvs: "nvs = nv # nvs'" and c: "name_value c = Some nv"
    and rest: "map name_value cs = map Some nvs'"
    by (cases nvs) auto
  from c have name: "getitem c ''Name'' = Inr (JStr (fst nv))"
    by (auto simp: name_value_def split: sum.splits json.splits)
  have "{k. \<exists>c'\<in>set (c # cs). getitem c' ''Name'' = Inr k}
          = insert (JStr (fst nv)) {k. \<exists>c'\<in>set cs. getitem c' ''Name'' = Inr k}"
    using name by auto
  with Cons.IH [OF rest] nvs show ?case by simp
qed

lemma normalize_well_formed:
  assumes "well_formed_success w j"
  shows "\<exists>b cs nvs. normalize_response w j = Inr b \<and> json_path j cookies_path = Inr (JArr cs)
           \<and> map name_value cs = map Some nvs \<and> website_cookies b = store_pairs [] nvs"
proof -
  from assms obtain n where n: "and_then (json_path j expires_in_path) (py_int w) = Inr n"
    and rep: "expiry_representable w n"
    by (auto simp: well_formed_success_def split: sum.splits)
  from assms obtain cs where cs: "json_path j cookies_path = Inr (JArr cs)"
    and all: "list_all (\<lambda>c. name_value c \<noteq> None) cs"
    by (auto simp: well_formed_success_def split: sum.splits json.splits)
  from all obtain nvs where nvs: "map name_value cs = map Some nvs"
    using list_all_name_value by blast
  have fl: "flatten_cookies (JArr cs) = Inr (store_pairs [] nvs)"
    by (simp add: flatten_cookies_def and_then_def cookie_loop_pairs [OF nvs])
  from assms have paths: "list_all (has_path j) required_paths"
    by (simp add: well_formed_success_def)
  have "\<exists>b. normalize_response w j = Inr b \<and> website_cookies b = store_pairs [] nvs"
    using paths n cs fl compute_expires_value [OF rep]
    by (auto simp: required_paths_def has_path_def expires_in_path_def cookies_path_def
        normalize_response_def and_then_def split: sum.splits)
  with cs nvs show ?thesis by blast
qed

lemma and_then_simps [simp]:
  "and_then (Inr v) f = f v"
  "and_then (Inl e) f = Inl e"
  by (simp_all add: and_then_def)

lemma respond_example_host:
  "respond (example_host status j clock offset) req
     = Inr \<lparr>status_code = status, body_json = Some j\<rparr>"
  by (simp add: example_host_def answer_all_def)

lemma clock_example_host:
  "utc_clock (example_host status j clock offset) = clock"
  "utc_offset (example_host status j clock offset) = offset"
  "time_t_min (example_host status j clock offset) = - 2147483648"
  "time_t_max (example_host status j clock offset) = 2147483647"
  "int_max_str_digits (example_host status j clock offset) = 4300"
  by (simp_all add: example_host_def)

lemma normalize_example_success:
  "normalize_response w (example_success ei cs) =
     and_then (py_int w ei) (\<lambda>n.
     and_then (compute_expires w n) (\<lambda>ex.
     and_then (flatten_cookies cs) (\<lambda>cookies.
     Inr \<lparr>adp_token = JStr ''ADP'', device_private_key = JStr ''KEY'',
          access_token = JStr ''AT'', refresh_token = JStr ''RT'', expires = ex,
          website_cookies = cookies,
          store_authentication_cookie = JObj [(''cookie'', JStr ''SAC'')],
          device_info = JObj [(''device_name'', JStr ''phone'')],
          customer_info = JObj [(''name'', JStr ''N'')]\<rparr>)))"
  by (simp add: normalize_response_def example_success_def)

lemma fst_register_example:
  "fst (register token domain serial (example_host status j clock offset)) =
     (if status \<noteq> 200 then Inl (Exception j)
      else normalize_response (example_host status j clock offset) j)"
  by (simp add: register_def fst_priv_register_respond respond_example_host and_then_def
      response_json_def)

lemma fst_register_auth_code_example:
  "fst (register_auth_code f ac cv domain serial (example_host status j clock offset)) =
     (if status \<noteq> 200 then Inl (Exception j)
      else normalize_response (example_host status j clock offset) j)"
  by (simp add: register_auth_code_def fst_priv_register_respond respond_example_host and_then_def
      response_json_def)

lemma fst_deregister_example:
  "fst (deregister token domain arg (example_host status j clock offset)) =
     (if status \<noteq> 200 then Inl (Exception j) else Inr j)"
  by (rule fst_deregister) (rule respond_example_host)

lemma compute_expires_example:
  "compute_expires (example_host 200 j 1600000000000000 offset) 3600
     = Inr (1600003600000000 - offset * 1000000)"
  by (simp add: compute_expires_def timedelta_seconds_def datetime_add_def datetime_min_def
      datetime_max_def naive_timestamp_def and_then_def clock_example_host)

lemma flatten_example:
  "flatten_cookies (JArr [example_cookie ''a'' [CHR ''1'', CHR 0x22], example_cookie ''b'' ''2'',
       example_cookie ''a'' ''3'']) = Inr [(JStr ''a'', ''3''), (JStr ''b'', ''2'')]"
  by (simp add: flatten_cookies_def example_cookie_def store_cookie_def and_then_def
      dict_setitem_def)

lemma flatten_empty: "flatten_cookies (JArr []) = Inr []"
  by (simp add: flatten_cookies_def and_then_def)

lemma name_value_example [simp]: "name_value (example_cookie n v) = Some (n, v)"
  by (simp add: name_value_def example_cookie_def)

lemma well_formed_example:
  "well_formed_success (example_host 200 j 1600000000000000 0)
     (example_success (JStr ''3600'')
        (JArr [example_cookie ''a'' [CHR ''1'', CHR 0x22], example_cookie ''b'' ''2'',
               example_cookie ''a'' ''3'']))"
  by (simp add: well_formed_success_def required_paths_def has_path_def example_success_def
      expires_in_path_def cookies_path_def str_to_int_def is_ascii_def int_of_str_def strip_def
      is_space_def digit_count_def unsigned_of_str_def is_digit_def digit_val_def
      expiry_representable_def
      clock_example_host datetime_min_def datetime_max_def)

subsection \<open>The request bodies\<close>

text \<open>
  Claim C6. For every domain and serial, the field \<^verbatim>\<open>cookies.domain\<close> of the body is
  exactly \<^verbatim>\<open>.amazon.\<close> followed by the domain: in the body that
  \<^verbatim>\<open>_build_registration_body\<close> returns and in the request that either entry point sends.
\<close>
theorem cookie_domain_exact:
  "json_path (JObj (build_registration_body domain serial)) [''cookies'', ''domain'']
     = Inr (JStr (''.amazon.'' @ domain))
   \<and> json_path (json_body (last (sent (snd (register token domain serial w)))))
         [''cookies'', ''domain''] = Inr (JStr (''.amazon.'' @ domain))
   \<and> json_path (json_body (last (sent (snd (register_auth_code build_client_id
         authorization_code code_verifier domain serial w)))))
         [''cookies'', ''domain''] = Inr (JStr (''.amazon.'' @ domain))"
  by (simp add: register_def register_auth_code_def snd_priv_register register_body_def
      register_auth_code_body_def build_registration_body_def)

text \<open>
  Claim C8. For every serial, authorization code and code verifier, the request that
  \<^verbatim>\<open>register_auth_code\<close> sends has as \<^verbatim>\<open>auth_data\<close> exactly the five fields
  \<^verbatim>\<open>client_id\<close> (the login module's \<^verbatim>\<open>build_client_id\<close> of the serial),
  \<^verbatim>\<open>authorization_code\<close>, \<^verbatim>\<open>code_verifier\<close>, \<^verbatim>\<open>code_algorithm\<close> = \<^verbatim>\<open>SHA-256\<close> and
  \<^verbatim>\<open>client_domain\<close> = \<^verbatim>\<open>DeviceLegacy\<close>.
\<close>
theorem auth_code_auth_data:
  "getitem (json_body (last (sent (snd (register_auth_code build_client_id authorization_code
         code_verifier domain serial w))))) ''auth_data''
     = Inr (JObj [(''client_id'', JStr (build_client_id serial)),
                  (''authorization_code'', JStr authorization_code),
                  (''code_verifier'', JStr code_verifier),
                  (''code_algorithm'', JStr ''SHA-256''),
                  (''client_domain'', JStr ''DeviceLegacy'')])"
  by (simp add: register_auth_code_def snd_priv_register
      register_auth_code_body_def build_registration_body_def)

text \<open>
  Claim C9. For every domain and serial, \<^verbatim>\<open>registration_data.domain\<close> of the request is the
  constant \<^verbatim>\<open>Device\<close>. The caller's domain is in the URL and in \<^verbatim>\<open>cookies.domain\<close>, and
  nowhere else: the \<^verbatim>\<open>cookies\<close> object has no other field that depends on it, and the
  bodies for two domains agree on every field but \<^verbatim>\<open>cookies\<close>.
\<close>
theorem registration_data_domain_constant:
  "json_path (JObj (build_registration_body domain serial)) [''registration_data'', ''domain'']
     = Inr (JStr ''Device'')
   \<and> json_path (json_body (last (sent (snd (register token domain serial w)))))
         [''registration_data'', ''domain''] = Inr (JStr ''Device'')
   \<and> json_path (json_body (last (sent (snd (register_auth_code build_client_id
         authorization_code code_verifier domain serial w)))))
         [''registration_data'', ''domain''] = Inr (JStr ''Device'')
   \<and> url (last (sent (snd (register token domain serial w))))
       = ''https://api.amazon.'' @ domain @ ''/auth/register''
   \<and> url (last (sent (snd (register_auth_code build_client_id
         authorization_code code_verifier domain serial w))))
       = ''https://api.amazon.'' @ domain @ ''/auth/register''
   \<and> getitem (JObj (build_registration_body domain serial)) ''cookies''
       = Inr (JObj [(''website_cookies'', JArr []), (''domain'', JStr (''.amazon.'' @ domain))])
   \<and> filter (\<lambda>kv. fst kv \<noteq> ''cookies'') (register_body token domain serial)
       = filter (\<lambda>kv. fst kv \<noteq> ''cookies'') (register_body token domain' serial)
   \<and> filter (\<lambda>kv. fst kv \<noteq> ''cookies'')
         (register_auth_code_body build_client_id authorization_code code_verifier domain serial)
       = filter (\<lambda>kv. fst kv \<noteq> ''cookies'')
         (register_auth_code_body build_client_id authorization_code code_verifier domain' serial)"
  by (simp add: register_def register_auth_code_def snd_priv_register register_body_def
      register_auth_code_body_def build_registration_body_def register_url_def)

subsection \<open>Deregistration\<close>

text \<open>
  Claim C7. For every access token and domain, \<^verbatim>\<open>deregister\<close> sends one request, with the
  body \<^verbatim>\<open>{"deregister_all_existing_accounts": deregister_all}\<close> (false when the argument is
  omitted) and the header \<^verbatim>\<open>Authorization: Bearer <access token>\<close>; when the answer has
  status 200, the result is its decoded JSON body, unmodified, whatever it contains.
\<close>
theorem deregister_request_and_acknowledgment:
  "sent (snd (deregister token domain (Some flag) w))
     = sent w @ [deregister_request token domain flag]
   \<and> sent (snd (deregister token domain None w))
     = sent w @ [deregister_request token domain False]
   \<and> (respond w (last (sent (snd (deregister token domain arg w))))
         = Inr \<lparr>status_code = 200, body_json = Some ack\<rparr>
       \<longrightarrow> fst (deregister token domain arg w) = Inr ack)"
proof -
  have "fst (deregister token domain arg w) = Inr ack"
    if "respond w (last (sent (snd (deregister token domain arg w))))
         = Inr \<lparr>status_code = 200, body_json = Some ack\<rparr>"
    using fst_deregister [of w token domain arg 200 ack] that
    by (simp add: snd_deregister)
  then show ?thesis by (simp add: snd_deregister)
qed

theorem deregister_request_and_acknowledgment_witness:
  "respond (example_host 200 (JObj [(''errors'', JArr [JStr ''partial''])]) 0 0)
     (last (sent (snd (deregister ''tok'' ''com'' (Some True)
        (example_host 200 (JObj [(''errors'', JArr [JStr ''partial''])]) 0 0)))))
     = Inr \<lparr>status_code = 200, body_json = Some (JObj [(''errors'', JArr [JStr ''partial''])])\<rparr>
   \<and> fst (deregister ''tok'' ''com'' (Some True)
        (example_host 200 (JObj [(''errors'', JArr [JStr ''partial''])]) 0 0))
     = Inr (JObj [(''errors'', JArr [JStr ''partial''])])
   \<and> sent (snd (deregister ''tok'' ''com'' (Some True)
        (example_host 200 (JObj [(''errors'', JArr [JStr ''partial''])]) 0 0)))
     = [\<lparr>url = ''https://api.amazon.com/auth/deregister'',
         json_body = JObj [(''deregister_all_existing_accounts'', JBool True)],
         headers = [(''Authorization'', ''Bearer tok'')]\<rparr>]
   \<and> sent (snd (deregister ''tok'' ''com'' None
        (example_host 200 (JObj [(''errors'', JArr [JStr ''partial''])]) 0 0)))
     = [\<lparr>url = ''https://api.amazon.com/auth/deregister'',
         json_body = JObj [(''deregister_all_existing_accounts'', JBool False)],
         headers = [(''Authorization'', ''Bearer tok'')]\<rparr>]"
  using deregister_request_and_acknowledgment [of "''tok''" "''com''" True
      "example_host 200 (JObj [(''errors'', JArr [JStr ''partial''])]) 0 0" "Some True"
      "JObj [(''errors'', JArr [JStr ''partial''])]"]
  by (simp add: example_host_def answer_all_def deregister_request_def)

subsection \<open>The expiry\<close>

text \<open>
  Claim C3 says that the expiry of the bundle is the instant the response was received
  plus \<^verbatim>\<open>expires_in\<close> seconds, as an absolute timestamp. The code computes
  \<^verbatim>\<open>(datetime.utcnow() + timedelta(seconds=expires_s)).timestamp()\<close>: the sum is a naive
  datetime that holds UTC wall-clock time, and \<^verbatim>\<open>timestamp()\<close> reads a naive datetime as
  local time. The result is the claimed instant only on a host whose zone is UTC. With
  \<^verbatim>\<open>expires_in\<close> = 3600, read at POSIX time 1600000000: on a host one hour east of UTC
  the expiry is 1600000000, the instant of the reading itself; on a UTC host it is
  1600003600.
\<close>
theorem expires_shifted_by_local_offset:
  "fst (register ''tok'' ''com'' ''S1''
         (example_host 200 (example_success (JInt 3600) (JArr [])) 1600000000000000 3600))
     = Inr \<lparr>adp_token = JStr ''ADP'', device_private_key = JStr ''KEY'',
          access_token = JStr ''AT'', refresh_token = JStr ''RT'',
          expires = 1600000000000000,
          website_cookies = [],
          store_authentication_cookie = JObj [(''cookie'', JStr ''SAC'')],
          device_info = JObj [(''device_name'', JStr ''phone'')],
          customer_info = JObj [(''name'', JStr ''N'')]\<rparr>
   \<and> utc_clock (example_host 200 (example_success (JInt 3600) (JArr [])) 1600000000000000 3600)
         + 3600 * 1000000 = 1600003600000000
   \<and> fst (register ''tok'' ''com'' ''S1''
         (example_host 200 (example_success (JInt 3600) (JArr [])) 1600000000000000 0))
     = Inr \<lparr>adp_token = JStr ''ADP'', device_private_key = JStr ''KEY'',
          access_token = JStr ''AT'', refresh_token = JStr ''RT'',
          expires = 1600003600000000,
          website_cookies = [],
          store_authentication_cookie = JObj [(''cookie'', JStr ''SAC'')],
          device_info = JObj [(''device_name'', JStr ''phone'')],
          customer_info = JObj [(''name'', JStr ''N'')]\<rparr>"
  by (simp add: fst_register_example normalize_example_success compute_expires_example
      flatten_empty clock_example_host)

subsection \<open>Errors\<close>

text \<open>
  Claim C1, as amended. For every status other than 200 whose body decodes as JSON,
  \<^verbatim>\<open>register\<close>, \<^verbatim>\<open>register_auth_code\<close> and \<^verbatim>\<open>deregister\<close> raise the built-in
  \<^verbatim>\<open>Exception\<close> with the decoded body, unchanged, as its one argument. (The claim as
  written asks for error kinds of their own that also carry the status code; the
  counterexample below shows that the error raised is the same for two statuses.)
\<close>
theorem non_200_raises_exception_with_body:
  assumes "status \<noteq> 200"
  shows "(respond w (last (sent (snd (register token domain serial w))))
            = Inr \<lparr>status_code = status, body_json = Some j\<rparr>
          \<longrightarrow> fst (register token domain serial w) = Inl (Exception j))
       \<and> (respond w (last (sent (snd (register_auth_code build_client_id authorization_code
              code_verifier domain serial w))))
            = Inr \<lparr>status_code = status, body_json = Some j\<rparr>
          \<longrightarrow> fst (register_auth_code build_client_id authorization_code code_verifier
                domain serial w) = Inl (Exception j))
       \<and> (respond w (last (sent (snd (deregister token domain arg w))))
            = Inr \<lparr>status_code = status, body_json = Some j\<rparr>
          \<longrightarrow> fst (deregister token domain arg w) = Inl (Exception j))"
  using assms
  by (auto simp: register_def register_auth_code_def last_sent_priv_register
      fst_priv_register_respond and_then_def response_json_def last_sent_deregister
      fst_deregister)

theorem non_200_raises_exception_with_body_witness:
  "(404::int) \<noteq> 200
   \<and> fst (register ''tok'' ''com'' ''S1'' (example_host 404 example_error 0 0))
       = Inl (Exception example_error)
   \<and> fst (register_auth_code example_client_id ''code'' ''verifier'' ''com'' ''S1''
         (example_host 404 example_error 0 0)) = Inl (Exception example_error)
   \<and> fst (deregister ''tok'' ''com'' None (example_host 404 example_error 0 0))
       = Inl (Exception example_error)"
  using non_200_raises_exception_with_body [of 404 "example_host 404 example_error 0 0"
      "''tok''" "''com''" "''S1''" example_error example_client_id "''code''" "''verifier''" None]
  by (simp add: respond_example_host)

theorem non_200_error_without_status_counterexample:
  "fst (register ''tok'' ''com'' ''S1'' (example_host 404 example_error 0 0))
     = Inl (Exception example_error)
   \<and> fst (register ''tok'' ''com'' ''S1'' (example_host 500 example_error 0 0))
     = Inl (Exception example_error)
   \<and> fst (register_auth_code example_client_id ''code'' ''verifier'' ''com'' ''S1''
         (example_host 404 example_error 0 0)) = Inl (Exception example_error)
   \<and> fst (register_auth_code example_client_id ''code'' ''verifier'' ''com'' ''S1''
         (example_host 500 example_error 0 0)) = Inl (Exception example_error)
   \<and> fst (deregister ''tok'' ''com'' None (example_host 404 example_error 0 0))
     = Inl (Exception example_error)
   \<and> fst (deregister ''tok'' ''com'' None (example_host 500 example_error 0 0))
     = Inl (Exception example_error)"
  by (simp add: fst_register_example fst_register_auth_code_example fst_deregister_example)

text \<open>
  Claim C2. For every answer with status 200 whose body lacks \<^verbatim>\<open>response.success\<close> or any
  field read under it, registration through either entry point ends with a decoding error:
  no bundle is returned, neither empty nor partial.
\<close>
theorem missing_field_fails_decoding:
  assumes "p \<in> set required_paths" and "\<not> has_path j p"
  shows "(respond w (last (sent (snd (register token domain serial w))))
            = Inr \<lparr>status_code = 200, body_json = Some j\<rparr>
          \<longrightarrow> (\<exists>e. fst (register token domain serial w) = Inl e \<and> decoding_error e))
       \<and> (respond w (last (sent (snd (register_auth_code build_client_id authorization_code
              code_verifier domain serial w))))
            = Inr \<lparr>status_code = 200, body_json = Some j\<rparr>
          \<longrightarrow> (\<exists>e. fst (register_auth_code build_client_id authorization_code code_verifier
                domain serial w) = Inl e \<and> decoding_error e))"
  using normalize_missing_path [OF assms, of w]
  by (auto simp: register_def register_auth_code_def last_sent_priv_register
      fst_priv_register_respond and_then_def response_json_def)

theorem missing_field_fails_decoding_witness:
  "[''response'', ''success'', ''tokens'', ''bearer'', ''access_token''] \<in> set required_paths
   \<and> \<not> has_path example_error [''response'', ''success'', ''tokens'', ''bearer'', ''access_token'']
   \<and> (\<exists>e. fst (register ''tok'' ''com'' ''S1'' (example_host 200 example_error 0 0)) = Inl e
          \<and> decoding_error e)
   \<and> (\<exists>e. fst (register_auth_code example_client_id ''code'' ''verifier'' ''com'' ''S1''
            (example_host 200 example_error 0 0)) = Inl e \<and> decoding_error e)
   \<and> fst (register ''tok'' ''com'' ''S1'' (example_host 200 example_error 0 0))
       = Inl (KeyError ''success'')"
proof -
  have p: "[''response'', ''success'', ''tokens'', ''bearer'', ''access_token''] \<in> set required_paths"
    by (simp add: required_paths_def)
  have h: "\<not> has_path example_error [''response'', ''success'', ''tokens'', ''bearer'', ''access_token'']"
    by (simp add: has_path_def example_error_def)
  have k: "fst (register ''tok'' ''com'' ''S1'' (example_host 200 example_error 0 0))
       = Inl (KeyError ''success'')"
    by (simp add: fst_register_example normalize_response_def example_error_def)
  show ?thesis
    using p h k missing_field_fails_decoding [OF p h, of "example_host 200 example_error 0 0"
        "''tok''" "''com''" "''S1''" example_client_id "''code''" "''verifier''"]
    by (simp add: respond_example_host)
qed


subsection \<open>The cookies\<close>

text \<open>
  Claim C4. For every sequence of cookies with a string \<^verbatim>\<open>Name\<close> and a string
  \<^verbatim>\<open>Value\<close>, the loop succeeds and gives a mapping in which each name has the value of
  the last pair with that name, without its double quotes; that mapping is the
  \<^verbatim>\<open>website_cookies\<close> of the bundle. The witness is the example of the specification:
  \<^verbatim>\<open>a\<close> = \<^verbatim>\<open>1"\<close>, \<^verbatim>\<open>b\<close> = \<^verbatim>\<open>2\<close>, \<^verbatim>\<open>a\<close> = \<^verbatim>\<open>3\<close> gives \<^verbatim>\<open>a\<close> = \<^verbatim>\<open>3\<close>, \<^verbatim>\<open>b\<close> = \<^verbatim>\<open>2\<close>.
\<close>
theorem website_cookies_last_wins:
  assumes "map name_value cs = map Some nvs"
  shows "\<exists>m. flatten_cookies (JArr cs) = Inr m
           \<and> (\<forall>n. dict_get m (JStr n)
                  = map_of (rev (map (\<lambda>nv. (fst nv, unquote (snd nv))) nvs)) n)
           \<and> (\<forall>w j b. json_path j cookies_path = Inr (JArr cs)
                  \<longrightarrow> normalize_response w j = Inr b \<longrightarrow> website_cookies b = m)"
proof -
  have fl: "flatten_cookies (JArr cs) = Inr (store_pairs [] nvs)"
    by (simp add: flatten_cookies_def cookie_loop_pairs [OF assms])
  have look: "dict_get (store_pairs [] nvs) (JStr n)
          = map_of (rev (map (\<lambda>nv. (fst nv, unquote (snd nv))) nvs)) n" for n
    by (simp add: dict_get_store_pairs split: option.splits)
  have "website_cookies b = store_pairs [] nvs"
    if "json_path j cookies_path = Inr (JArr cs)" and "normalize_response w j = Inr b" for w j b
    using normalize_Inr_cookies [OF that(2)] that(1) fl by auto
  with fl look show ?thesis by blast
qed

theorem website_cookies_last_wins_witness:
  "map name_value [example_cookie ''a'' [CHR ''1'', CHR 0x22], example_cookie ''b'' ''2'',
       example_cookie ''a'' ''3'']
     = map Some [(''a'', [CHR ''1'', CHR 0x22]), (''b'', ''2''), (''a'', ''3'')]
   \<and> flatten_cookies (JArr [example_cookie ''a'' [CHR ''1'', CHR 0x22], example_cookie ''b'' ''2'',
       example_cookie ''a'' ''3'']) = Inr [(JStr ''a'', ''3''), (JStr ''b'', ''2'')]
   \<and> dict_get [(JStr ''a'', ''3''), (JStr ''b'', ''2'')] (JStr ''a'')
       = map_of (rev (map (\<lambda>nv. (fst nv, unquote (snd nv)))
           [(''a'', [CHR ''1'', CHR 0x22]), (''b'', ''2''), (''a'', ''3'')])) ''a''
   \<and> dict_get [(JStr ''a'', ''3''), (JStr ''b'', ''2'')] (JStr ''a'') = Some ''3''
   \<and> dict_get [(JStr ''a'', ''3''), (JStr ''b'', ''2'')] (JStr ''b'') = Some ''2''"
proof -
  have h: "map name_value [example_cookie ''a'' [CHR ''1'', CHR 0x22], example_cookie ''b'' ''2'',
       example_cookie ''a'' ''3'']
     = map Some [(''a'', [CHR ''1'', CHR 0x22]), (''b'', ''2''), (''a'', ''3'')]"
    by simp
  show ?thesis
    using h website_cookies_last_wins [OF h]
    by (auto simp: flatten_example unquote_def)
qed

text \<open>
  Claim C10. For every well-formed success response, registration returns a bundle, and the
  keys of its \<^verbatim>\<open>website_cookies\<close> are exactly the \<^verbatim>\<open>Name\<close> fields that occur in the
  sequence \<^verbatim>\<open>tokens.website_cookies\<close> of the response, each once; an empty sequence gives
  an empty mapping. It is stated for \<^verbatim>\<open>_register\<close> with any body, which both entry points
  call.
\<close>
theorem website_cookies_keys_exact:
  assumes "respond w (last (sent (snd (priv_register body domain w))))
             = Inr \<lparr>status_code = 200, body_json = Some j\<rparr>"
      and "well_formed_success w j"
  shows "\<exists>b cs. fst (priv_register body domain w) = Inr b
           \<and> json_path j cookies_path = Inr (JArr cs)
           \<and> fst ` set (website_cookies b) = {k. \<exists>c\<in>set cs. getitem c ''Name'' = Inr k}
           \<and> distinct (map fst (website_cookies b))
           \<and> (cs = [] \<longrightarrow> website_cookies b = [])"
proof -
  from normalize_well_formed [OF assms(2)] obtain b cs nvs
    where b: "normalize_response w j = Inr b"
      and cs: "json_path j cookies_path = Inr (JArr cs)"
      and nvs: "map name_value cs = map Some nvs"
      and wc: "website_cookies b = store_pairs [] nvs"
    by blast
  have res: "fst (priv_register body domain w) = Inr b"
    using assms(1) b
    by (simp add: last_sent_priv_register fst_priv_register_respond response_json_def)
  have keys: "fst ` set (website_cookies b) = {k. \<exists>c\<in>set cs. getitem c ''Name'' = Inr k}"
    by (simp add: wc keys_store_pairs names_of_pairs [OF nvs])
  have dist: "distinct (map fst (website_cookies b))"
    by (simp add: wc distinct_store_pairs)
  have "website_cookies b = []" if "cs = []"
    using that nvs wc by (simp add: store_pairs_def)
  with res cs keys dist show ?thesis by blast
qed


theorem website_cookies_keys_exact_witness:
  "respond (example_host 200 (example_success (JStr ''3600'')
        (JArr [example_cookie ''a'' [CHR ''1'', CHR 0x22], example_cookie ''b'' ''2'',
               example_cookie ''a'' ''3''])) 1600000000000000 0)
      (last (sent (snd (priv_register (register_body ''tok'' ''com'' ''S1'') ''com''
        (example_host 200 (example_success (JStr ''3600'')
        (JArr [example_cookie ''a'' [CHR ''1'', CHR 0x22], example_cookie ''b'' ''2'',
               example_cookie ''a'' ''3''])) 1600000000000000 0)))))
     = Inr \<lparr>status_code = 200, body_json = Some (example_success (JStr ''3600'')
        (JArr [example_cookie ''a'' [CHR ''1'', CHR 0x22], example_cookie ''b'' ''2'',
               example_cookie ''a'' ''3'']))\<rparr>
   \<and> well_formed_success (example_host 200 (example_success (JStr ''3600'')
        (JArr [example_cookie ''a'' [CHR ''1'', CHR 0x22], example_cookie ''b'' ''2'',
               example_cookie ''a'' ''3''])) 1600000000000000 0)
      (example_success (JStr ''3600'')
        (JArr [example_cookie ''a'' [CHR ''1'', CHR 0x22], example_cookie ''b'' ''2'',
               example_cookie ''a'' ''3'']))
   \<and> (\<exists>b. fst (register ''tok'' ''com'' ''S1''
        (example_host 200 (example_success (JStr ''3600'')
        (JArr [example_cookie ''a'' [CHR ''1'', CHR 0x22], example_cookie ''b'' ''2'',
               example_cookie ''a'' ''3''])) 1600000000000000 0)) = Inr b
        \<and> fst ` set (website_cookies b) = {JStr ''a'', JStr ''b''}
        \<and> distinct (map fst (website_cookies b)))"
proof -
  let ?j = "example_success (JStr ''3600'')
        (JArr [example_cookie ''a'' [CHR ''1'', CHR 0x22], example_cookie ''b'' ''2'',
               example_cookie ''a'' ''3''])"
  let ?w = "example_host 200 ?j 1600000000000000 0"
  have r: "respond ?w (last (sent (snd (priv_register (register_body ''tok'' ''com'' ''S1'')
              ''com'' ?w)))) = Inr \<lparr>status_code = 200, body_json = Some ?j\<rparr>"
    by (rule respond_example_host)
  have wf: "well_formed_success ?w ?j"
    by (rule well_formed_example)
  have cs: "json_path ?j cookies_path
      = Inr (JArr [example_cookie ''a'' [CHR ''1'', CHR 0x22], example_cookie ''b'' ''2'',
               example_cookie ''a'' ''3''])"
    by (simp add: example_success_def cookies_path_def)
  have names: "{k. \<exists>c\<in>set [example_cookie ''a'' [CHR ''1'', CHR 0x22],
        example_cookie ''b'' ''2'', example_cookie ''a'' ''3'']. getitem c ''Name'' = Inr k}
      = {JStr ''a'', JStr ''b''}"
    by (auto simp: example_cookie_def)
  from website_cookies_keys_exact [OF r wf] cs names
  have "\<exists>b. fst (register ''tok'' ''com'' ''S1'' ?w) = Inr b
        \<and> fst ` set (website_cookies b) = {JStr ''a'', JStr ''b''}
        \<and> distinct (map fst (website_cookies b))"
    by (auto simp: register_def)
  with r wf show ?thesis by blast
qed

subsection \<open>The two entry points\<close>

text \<open>
  Claim C5. For every domain and serial, the bodies that \<^verbatim>\<open>register\<close> and
  \<^verbatim>\<open>register_auth_code\<close> send are, \<^verbatim>\<open>auth_data\<close> left out, the same body, that of
  \<^verbatim>\<open>_build_registration_body\<close>; URL and headers are the same; and when the server gives both
  requests the same answer, both return the same result.
\<close>
theorem entry_points_share_normalization:
  "filter (\<lambda>kv. fst kv \<noteq> ''auth_data'')
       (obj_fields (json_body (last (sent (snd (register token domain serial w))))))
     = build_registration_body domain serial
   \<and> filter (\<lambda>kv. fst kv \<noteq> ''auth_data'')
       (obj_fields (json_body (last (sent (snd (register_auth_code build_client_id
          authorization_code code_verifier domain serial w))))))
     = build_registration_body domain serial
   \<and> url (last (sent (snd (register token domain serial w))))
     = url (last (sent (snd (register_auth_code build_client_id
          authorization_code code_verifier domain serial w))))
   \<and> headers (last (sent (snd (register token domain serial w))))
     = headers (last (sent (snd (register_auth_code build_client_id
          authorization_code code_verifier domain serial w))))
   \<and> (respond w (last (sent (snd (register token domain serial w))))
        = respond w (last (sent (snd (register_auth_code build_client_id
          authorization_code code_verifier domain serial w))))
      \<longrightarrow> fst (register token domain serial w)
        = fst (register_auth_code build_client_id authorization_code code_verifier
            domain serial w))"
  by (simp add: register_def register_auth_code_def last_sent_priv_register
      fst_priv_register_respond obj_fields_def register_body_def register_auth_code_body_def
      build_registration_body_def)

theorem entry_points_share_normalization_witness:
  "respond (example_host 200 (example_success (JInt 3600) (JArr [])) 1600000000000000 0)
      (last (sent (snd (register ''tok'' ''com'' ''S1''
         (example_host 200 (example_success (JInt 3600) (JArr [])) 1600000000000000 0)))))
     = respond (example_host 200 (example_success (JInt 3600) (JArr [])) 1600000000000000 0)
      (last (sent (snd (register_auth_code example_client_id ''code'' ''verifier'' ''com'' ''S1''
         (example_host 200 (example_success (JInt 3600) (JArr [])) 1600000000000000 0)))))
   \<and> fst (register ''tok'' ''com'' ''S1''
         (example_host 200 (example_success (JInt 3600) (JArr [])) 1600000000000000 0))
     = fst (register_auth_code example_client_id ''code'' ''verifier'' ''com'' ''S1''
         (example_host 200 (example_success (JInt 3600) (JArr [])) 1600000000000000 0))
   \<and> fst (register_auth_code example_client_id ''code'' ''verifier'' ''com'' ''S1''
         (example_host 200 (example_success (JInt 3600) (JArr [])) 1600000000000000 0))
     = Inr \<lparr>adp_token = JStr ''ADP'', device_private_key = JStr ''KEY'',
          access_token = JStr ''AT'', refresh_token = JStr ''RT'',
          expires = 1600003600000000,
          website_cookies = [],
          store_authentication_cookie = JObj [(''cookie'', JStr ''SAC'')],
          device_info = JObj [(''device_name'', JStr ''phone'')],
          customer_info = JObj [(''name'', JStr ''N'')]\<rparr>"
  using entry_points_share_normalization [of "''tok''" "''com''" "''S1''"
      "example_host 200 (example_success (JInt 3600) (JArr [])) 1600000000000000 0"
      example_client_id "''code''" "''verifier''"]
  by (simp add: respond_example_host fst_register_auth_code_example normalize_example_success
      compute_expires_example flatten_empty)

end
